theory Spec2Isabelle
  imports Complex_Main "HOL-Library.AList"
begin

section \<open>Python values and strings\<close>

text \<open>
  Field values are Python strings or \<open>None\<close>: \<open>Some s\<close> is the string \<open>s\<close>,
  \<open>None\<close> is Python's \<open>None\<close>. Strings are ASCII text; \<open>lower\<close> is
  \<open>str.lower()\<close> on it. \<open>py_str\<close> is \<open>str(v)\<close> and \<open>truthy\<close> is the
  truth value Python gives \<open>v\<close> in a condition.
\<close>

definition lower_char :: "char \<Rightarrow> char" where
  "lower_char c =
     (case map_of (zip ''ABCDEFGHIJKLMNOPQRSTUVWXYZ'' ''abcdefghijklmnopqrstuvwxyz'') c of
        Some d \<Rightarrow> d
      | None \<Rightarrow> c)"

definition lower :: "string \<Rightarrow> string" where
  "lower s = map lower_char s"

definition py_str :: "string option \<Rightarrow> string" where
  "py_str v = (case v of None \<Rightarrow> ''None'' | Some s \<Rightarrow> s)"

definition truthy :: "string option \<Rightarrow> bool" where
  "truthy v = (case v of None \<Rightarrow> False | Some s \<Rightarrow> s \<noteq> [])"

text \<open>The list \<open>["unknown", "none", ""]\<close> that \<open>scratchpad.py\<close> tests values against.\<close>

definition placeholder_values :: "string list" where
  "placeholder_values = [''unknown'', ''none'', '''']"

text \<open>\<open>value is None or str(value).lower() in ["unknown", "none", ""]\<close> (add_field).\<close>

definition invalid_value :: "string option \<Rightarrow> bool" where
  "invalid_value v = (v = None \<or> lower (py_str v) \<in> set placeholder_values)"

text \<open>\<open>v.value and str(v.value).lower() not in ["unknown", "none", ""]\<close>
  (_update_completeness).\<close>

definition is_filled :: "string option \<Rightarrow> bool" where
  "is_filled v = (truthy v \<and> lower (py_str v) \<notin> set placeholder_values)"

section \<open>config.py\<close>

definition REQUIRED_FIELDS_FOR_BOOKING :: nat where
  "REQUIRED_FIELDS_FOR_BOOKING = 12"

definition TOTAL_POSSIBLE_FIELDS :: nat where
  "TOTAL_POSSIBLE_FIELDS = 16"

definition CONFIRMATION_AUTO_CONFIRM_ATTEMPTS :: nat where
  "CONFIRMATION_AUTO_CONFIRM_ATTEMPTS = 3"

definition RETROACTIVE_SCAN_LIMIT :: nat where
  "RETROACTIVE_SCAN_LIMIT = 4"

datatype ConfirmationMode = CHAT | BUTTON

definition CONFIRMATION_MODE :: ConfirmationMode where
  "CONFIRMATION_MODE = CHAT"

definition GREETING_STOPWORDS :: "string list" where
  "GREETING_STOPWORDS =
     [''haan'', ''haji'', ''han'', ''haa'', ''ji'', ''haanji'', ''hello ji'', ''nomoshkar'',
      ''namaste'',
      ''hello'', ''hi'', ''hey'', ''yes'', ''yeah'', ''yep'', ''ok'', ''okay'', ''sure'', ''fine'',
      ''ok'', ''okey'', ''yo'', ''yup'', ''yaar'', ''dost'', ''sirji'',
      ''shukriya'', ''shukriya ji'', ''thank you'', ''thanks'', ''thankyou'', ''thank'', ''thx'',
      ''dhanyavaad'', ''bahut acha'', ''bahut achha'', ''achha'', ''acha'', ''great'', ''perfect'',
      ''done'', ''good'', ''nice'', ''wonderful'', ''excellent'', ''super'', ''awesome'',
      ''bye'', ''goodbye'', ''tata'', ''cheerio'', ''see you'', ''later'']"

datatype ConversationState =
  GREETING | NAME_COLLECTION | VEHICLE_DETAILS | DATE_SELECTION | CONFIRMATION | COMPLETED
  | SERVICE_SELECTION | TIER_SELECTION | VEHICLE_TYPE | SLOT_SELECTION | ADDRESS_COLLECTION
  | CANCELLED

section \<open>booking/scratchpad.py\<close>

text \<open>
  \<open>FieldEntry\<close>: every attribute is optional in the source. Timestamps are readings of a
  clock (\<open>datetime.now()\<close>), passed to the operations as \<open>now\<close>; confidences are the
  numbers the callers pass.
\<close>

record FieldEntry =
  fvalue :: "string option"
  source :: "string option"
  turn :: "int option"
  confidence :: "rat option"
  extraction_method :: "string option"
  timestamp :: "nat option"
  edit_source :: "string option"
  previous_value :: "string option"
  edited_at :: "nat option"

text \<open>
  The keys of \<open>ScratchpadForm.metadata\<close> that the source reads or writes; a key that is
  not in the dictionary is \<open>None\<close>. Percentages are the exact numbers the floats denote.
\<close>

record FormMetadata =
  md_conversation_id :: "string option"
  md_created_at :: "nat option"
  data_completeness :: "rat option"
  is_bookable :: "bool option"
  filled_required_fields :: "nat option"
  turns :: "string list option"

text \<open>A section is a Python dict in insertion order: a list of (field name, entry).\<close>

type_synonym section_dict = "(string \<times> FieldEntry) list"

record ScratchpadForm =
  customer :: section_dict
  vehicle :: section_dict
  appointment :: section_dict
  metadata :: FormMetadata

record ScratchpadManager =
  form :: ScratchpadForm
  conversation_id :: string
  created_at :: nat

definition section_names :: "string list" where
  "section_names = [''customer'', ''vehicle'', ''appointment'']"

text \<open>\<open>getattr(self.form, section)\<close> for one of the three section names.\<close>

definition get_attr :: "ScratchpadForm \<Rightarrow> string \<Rightarrow> section_dict" where
  "get_attr f sec =
     (if sec = ''customer'' then customer f
      else if sec = ''vehicle'' then vehicle f
      else appointment f)"

definition set_attr :: "ScratchpadForm \<Rightarrow> string \<Rightarrow> section_dict \<Rightarrow> ScratchpadForm" where
  "set_attr f sec d =
     (if sec = ''customer'' then f\<lparr>customer := d\<rparr>
      else if sec = ''vehicle'' then f\<lparr>vehicle := d\<rparr>
      else f\<lparr>appointment := d\<rparr>)"

text \<open>\<open>ScratchpadManager.__init__\<close> (the conversation id is given).\<close>

definition new_scratchpad :: "string \<Rightarrow> nat \<Rightarrow> ScratchpadManager" where
  "new_scratchpad cid now =
     \<lparr>form = \<lparr>customer = [], vehicle = [], appointment = [],
              metadata = \<lparr>md_conversation_id = Some cid, md_created_at = Some now,
                          data_completeness = Some 0, is_bookable = None,
                          filled_required_fields = None, turns = None\<rparr>\<rparr>,
      conversation_id = cid, created_at = now\<rparr>"

text \<open>
  Python's \<open>round(x, 1)\<close> on a float whose value is exactly \<open>x\<close>: the nearest multiple of
  one tenth, a tie going to the even tenth. \<open>filled / 16 * 100\<close> is exact in binary
  floating point (a division by a power of two, then a product with at most two binary
  places), so the rounding sees the exact quotient.
\<close>

definition round_half_even :: "rat \<Rightarrow> int" where
  "round_half_even x =
     (let f = \<lfloor>x\<rfloor>; d = x - of_int f
      in if d < 1 / 2 then f
         else if 1 / 2 < d then f + 1
         else if even f then f else f + 1)"

definition py_round1 :: "rat \<Rightarrow> rat" where
  "py_round1 x = of_int (round_half_even (x * 10)) / 10"

definition filled_in :: "section_dict \<Rightarrow> nat" where
  "filled_in d = length (filter (\<lambda>e. is_filled (fvalue e)) (map snd d))"

definition filled :: "ScratchpadForm \<Rightarrow> nat" where
  "filled f = sum_list (map (\<lambda>s. filled_in (get_attr f s)) section_names)"

definition required_fields :: "string list" where
  "required_fields =
     [''first_name'', ''last_name'', ''phone''] @ [''brand'', ''model'', ''plate''] @ [''date'']"

definition required_filled_in :: "section_dict \<Rightarrow> nat" where
  "required_filled_in d =
     length (filter (\<lambda>n. case map_of d n of
                            None \<Rightarrow> False
                          | Some e \<Rightarrow> truthy (fvalue e) \<and>
                              lower (py_str (fvalue e)) \<notin> set placeholder_values)
                    required_fields)"

definition filled_required :: "ScratchpadForm \<Rightarrow> nat" where
  "filled_required f = sum_list (map (\<lambda>s. required_filled_in (get_attr f s)) section_names)"

definition completeness_pct :: "ScratchpadForm \<Rightarrow> rat" where
  "completeness_pct f =
     (let pct = py_round1 ((of_nat (filled f) / of_nat TOTAL_POSSIBLE_FIELDS) * 100)
      in if 100 < pct then 100 else pct)"

definition update_completeness :: "ScratchpadManager \<Rightarrow> ScratchpadManager" where
  "update_completeness self =
     (let f = form self;
          bookable = (int (filled_required f) \<ge> int REQUIRED_FIELDS_FOR_BOOKING - 1)
      in self\<lparr>form := f\<lparr>metadata := (metadata f)
                 \<lparr>data_completeness := Some (completeness_pct f),
                  is_bookable := Some bookable,
                  filled_required_fields := Some (filled_required f)\<rparr>\<rparr>\<rparr>)"

text \<open>
  \<open>add_field\<close>: the result is the returned flag and the scratchpad after the call.
  \<open>now\<close> is the clock reading stored as \<open>timestamp\<close> and \<open>edited_at\<close>.
\<close>

definition add_field ::
  "ScratchpadManager \<Rightarrow> string \<Rightarrow> string \<Rightarrow> string option \<Rightarrow> string \<Rightarrow> int \<Rightarrow> rat \<Rightarrow> string
     \<Rightarrow> string \<Rightarrow> nat \<Rightarrow> bool \<times> ScratchpadManager" where
  "add_field self sec field_name v src new_turn conf method esrc now =
     (if sec \<notin> set section_names then (False, self)
      else if v = None \<or> lower (py_str v) \<in> set placeholder_values then (False, self)
      else
        let section_dict = get_attr (form self) sec;
            existing_entry = map_of section_dict field_name;
            stale = (case existing_entry of
                       None \<Rightarrow> False
                     | Some e \<Rightarrow> (case turn e of None \<Rightarrow> False | Some t \<Rightarrow> new_turn \<le> t));
            prev = (case existing_entry of
                      None \<Rightarrow> None
                    | Some e \<Rightarrow> (case turn e of None \<Rightarrow> None | Some t \<Rightarrow> fvalue e))
        in if stale then (False, self)
           else
             let entry = \<lparr>fvalue = v, source = Some src, turn = Some new_turn,
                          confidence = Some conf, extraction_method = Some method,
                          timestamp = Some now, edit_source = Some esrc,
                          previous_value = prev, edited_at = Some now\<rparr>
             in (True,
                 update_completeness
                   (self\<lparr>form := set_attr (form self) sec
                                    (AList.update field_name entry section_dict)\<rparr>)))"

definition get_field :: "ScratchpadManager \<Rightarrow> string \<Rightarrow> string \<Rightarrow> FieldEntry option" where
  "get_field self sec field_name =
     (if sec \<notin> set section_names then None
      else map_of (get_attr (form self) sec) field_name)"

definition get_section :: "ScratchpadManager \<Rightarrow> string \<Rightarrow> section_dict" where
  "get_section self sec =
     (if sec \<notin> set section_names then [] else get_attr (form self) sec)"





definition clear_all :: "ScratchpadManager \<Rightarrow> ScratchpadManager" where
  "clear_all self =
     self\<lparr>form := (form self)\<lparr>customer := [], vehicle := [], appointment := [],
                     metadata := (metadata (form self))\<lparr>data_completeness := Some 0\<rparr>\<rparr>\<rparr>"

text \<open>\<open>self.form.metadata.get("data_completeness", 0.0)\<close>.\<close>

definition get_completeness :: "ScratchpadManager \<Rightarrow> rat" where
  "get_completeness self =
     (case data_completeness (metadata (form self)) of None \<Rightarrow> 0 | Some c \<Rightarrow> c)"




text \<open>
  Reading a scratchpad: the turn recorded for a field (\<open>None\<close> when the field has no
  entry or its entry has no turn), and the entry a successful \<open>add_field\<close> stores.
\<close>

definition stored_turn :: "ScratchpadManager \<Rightarrow> string \<Rightarrow> string \<Rightarrow> int option" where
  "stored_turn self sec f = (case get_field self sec f of None \<Rightarrow> None | Some e \<Rightarrow> turn e)"

definition stored_value :: "ScratchpadManager \<Rightarrow> string \<Rightarrow> string \<Rightarrow> string option" where
  "stored_value self sec f = (case get_field self sec f of None \<Rightarrow> None | Some e \<Rightarrow> fvalue e)"

definition new_entry ::
  "ScratchpadManager \<Rightarrow> string \<Rightarrow> string \<Rightarrow> string option \<Rightarrow> string \<Rightarrow> int \<Rightarrow> rat \<Rightarrow> string
     \<Rightarrow> string \<Rightarrow> nat \<Rightarrow> FieldEntry" where
  "new_entry self sec f v src t c m es now =
     \<lparr>fvalue = v, source = Some src, turn = Some t, confidence = Some c,
      extraction_method = Some m, timestamp = Some now, edit_source = Some es,
      previous_value =
        (case get_field self sec f of
           None \<Rightarrow> None
         | Some e \<Rightarrow> (case turn e of None \<Rightarrow> None | Some t0 \<Rightarrow> fvalue e)),
      edited_at = Some now\<rparr>"

text \<open>The scratchpad of the spec's scenarios: "Raj" stored as first name at turn 1.\<close>

definition raj_scratchpad :: ScratchpadManager where
  "raj_scratchpad =
     snd (add_field (new_scratchpad ''c1'' 0) ''customer'' ''first_name'' (Some ''Raj'')
            ''user'' 1 1 ''user'' ''initial_entry'' 1)"

text \<open>An entry written without a turn (the default of \<open>FieldEntry\<close>), holding "Raj".\<close>

definition untracked_scratchpad :: ScratchpadManager where
  "untracked_scratchpad =
     (new_scratchpad ''c1'' 0)
       \<lparr>form := (form (new_scratchpad ''c1'' 0))
          \<lparr>customer :=
             [(''first_name'',
               \<lparr>fvalue = Some ''Raj'', source = None, turn = None, confidence = None,
                extraction_method = None, timestamp = None, edit_source = None,
                previous_value = None, edited_at = None\<rparr>)]\<rparr>\<rparr>"

text \<open>The stored percentage agrees with the fields of the form.\<close>

definition completeness_ok :: "ScratchpadManager \<Rightarrow> bool" where
  "completeness_ok self =
     (data_completeness (metadata (form self)) = Some (completeness_pct (form self)))"

section \<open>The writers of the scratchpad\<close>

text \<open>
  A Python dict of collected data is the list of its items in iteration order; a value
  is a string or \<open>None\<close>. \<open>dict_get\<close> is \<open>mapping.get(key, default)\<close> on a dict of
  strings.
\<close>

type_synonym data_dict = "(string \<times> string option) list"

definition dict_get :: "(string \<times> string) list \<Rightarrow> string \<Rightarrow> string \<Rightarrow> string" where
  "dict_get d k dflt = (case map_of d k of None \<Rightarrow> dflt | Some x \<Rightarrow> x)"

text \<open>
  \<open>MessageProcessor.process_message\<close>, step 8.4 (lines 280 to 325): the section and the
  scratchpad field for a collected field name, \<open>None\<close> for a name that is skipped.
\<close>

definition orchestrator_target :: "string \<Rightarrow> (string \<times> string) option" where
  "orchestrator_target field_name =
     (if field_name \<in> set [''first_name'', ''last_name'', ''full_name'', ''phone'', ''address'']
      then Some (''customer'', field_name)
      else if field_name \<in> set [''vehicle_brand'', ''vehicle_model'', ''vehicle_plate'',
                                ''vehicle_type'']
      then Some (''vehicle'',
                 dict_get [(''vehicle_brand'', ''brand''), (''vehicle_model'', ''model''),
                           (''vehicle_plate'', ''plate''), (''vehicle_type'', ''vehicle_type'')]
                   field_name field_name)
      else if field_name \<in> set [''appointment_date'', ''service_type'', ''service_tier'',
                                ''time_slot'', ''notes'']
      then Some (''appointment'',
                 dict_get [(''appointment_date'', ''date''), (''service_type'', ''service_type''),
                           (''service_tier'', ''service_tier''), (''time_slot'', ''time_slot''),
                           (''notes'', ''notes'')]
                   field_name field_name)
      else None)"

text \<open>The body of the loop over \<open>all_collected_data.items()\<close>, and the loop.\<close>

definition populate_field ::
  "ScratchpadManager \<Rightarrow> string \<Rightarrow> string option \<Rightarrow> nat \<Rightarrow> ScratchpadManager" where
  "populate_field sp field_name v now =
     (if v = None then sp
      else case orchestrator_target field_name of
             None \<Rightarrow> sp
           | Some (sec, scratchpad_field) \<Rightarrow>
               snd (add_field sp sec scratchpad_field v ''collection'' 0 1 ''collected''
                      ''initial_entry'' now))"

fun populate_scratchpad :: "ScratchpadManager \<Rightarrow> data_dict \<Rightarrow> nat \<Rightarrow> ScratchpadManager" where
  "populate_scratchpad sp [] now = sp"
| "populate_scratchpad sp ((field_name, v) # rest) now =
     populate_scratchpad (populate_field sp field_name v now) rest now"

text \<open>
  \<open>ScratchpadCoordinator.update_from_extraction\<close>. In the states VEHICLE_DETAILS and
  DATE_SELECTION a field name that the mapping does not know is written under its own
  name (\<open>field_mapping.get(field_name, field_name)\<close>).
\<close>

definition update_from_extraction ::
  "ScratchpadManager \<Rightarrow> ConversationState \<Rightarrow> string \<Rightarrow> string option \<Rightarrow> nat \<Rightarrow> ScratchpadManager"
  where
  "update_from_extraction sp st field_name v now =
     (if st = NAME_COLLECTION then
        (if field_name \<in> set [''first_name'', ''last_name'', ''full_name'']
         then snd (add_field sp ''customer'' field_name v ''extraction'' 0 1 ''user''
                     ''initial_entry'' now)
         else sp)
      else if st = VEHICLE_DETAILS then
        snd (add_field sp ''vehicle''
               (dict_get [(''vehicle_brand'', ''brand''), (''vehicle_model'', ''model''),
                          (''vehicle_plate'', ''plate'')] field_name field_name)
               v ''extraction'' 0 1 ''user'' ''initial_entry'' now)
      else if st = DATE_SELECTION then
        snd (add_field sp ''appointment''
               (dict_get [(''appointment_date'', ''date'')] field_name field_name)
               v ''extraction'' 0 1 ''user'' ''initial_entry'' now)
      else sp)"

text \<open>Step 10 of \<open>process_message\<close>: the loop over the items of \<open>extracted_data\<close>.\<close>

fun update_all_from_extraction ::
  "ScratchpadManager \<Rightarrow> ConversationState \<Rightarrow> data_dict \<Rightarrow> nat \<Rightarrow> ScratchpadManager" where
  "update_all_from_extraction sp st [] now = sp"
| "update_all_from_extraction sp st ((k, v) # rest) now =
     update_all_from_extraction (update_from_extraction sp st k v now) st rest now"

text \<open>
  \<open>BookingFlowManager._add_extracted_data\<close>. The turn is
  \<open>len(metadata.get("turns", [])) + 1\<close>; the confidence is 0.85.
\<close>

definition section_map :: "(string \<times> string \<times> string) list" where
  "section_map =
     [(''first_name'', ''customer'', ''first_name''),
      (''last_name'', ''customer'', ''last_name''),
      (''phone'', ''customer'', ''phone''),
      (''email'', ''customer'', ''email''),
      (''vehicle_brand'', ''vehicle'', ''brand''),
      (''vehicle_model'', ''vehicle'', ''model''),
      (''appointment_date'', ''appointment'', ''date''),
      (''service_type'', ''appointment'', ''service_type'')]"

definition booking_turn :: "ScratchpadManager \<Rightarrow> int" where
  "booking_turn sp =
     int (length (case turns (metadata (form sp)) of None \<Rightarrow> [] | Some ts \<Rightarrow> ts)) + 1"

definition add_extracted_item ::
  "ScratchpadManager \<Rightarrow> int \<Rightarrow> string \<Rightarrow> string option \<Rightarrow> nat \<Rightarrow> ScratchpadManager" where
  "add_extracted_item sp t k v now =
     (if v = None then sp
      else case map_of section_map k of
             None \<Rightarrow> sp
           | Some (sec, field_name) \<Rightarrow>
               snd (add_field sp sec field_name v ''direct_extraction'' t (85 / 100) ''user''
                      ''initial_entry'' now))"

fun add_extracted_items ::
  "ScratchpadManager \<Rightarrow> int \<Rightarrow> data_dict \<Rightarrow> nat \<Rightarrow> ScratchpadManager" where
  "add_extracted_items sp t [] now = sp"
| "add_extracted_items sp t ((k, v) # rest) now =
     add_extracted_items (add_extracted_item sp t k v now) t rest now"

definition add_extracted_data :: "ScratchpadManager \<Rightarrow> data_dict \<Rightarrow> nat \<Rightarrow> ScratchpadManager" where
  "add_extracted_data sp extracted_data now =
     (if extracted_data = [] then sp
      else add_extracted_items sp (booking_turn sp) extracted_data now)"

text \<open>
  Several turns of step 8.4, each with its collected data and clock reading.
\<close>

definition populate_turns ::
  "ScratchpadManager \<Rightarrow> (data_dict \<times> nat) list \<Rightarrow> ScratchpadManager" where
  "populate_turns sp ts = foldl (\<lambda>s (d, now). populate_scratchpad s d now) sp ts"

text \<open>
  The field names step 8.4 can write into each section, and a scratchpad that holds no
  other names and whose bookability flag is not \<open>True\<close>.
\<close>

definition orch_keys :: "ScratchpadForm \<Rightarrow> bool" where
  "orch_keys F =
     (fst ` set (customer F)
        \<subseteq> set [''first_name'', ''last_name'', ''full_name'', ''phone'', ''address''] \<and>
      fst ` set (vehicle F) \<subseteq> set [''brand'', ''model'', ''plate'', ''vehicle_type''] \<and>
      fst ` set (appointment F)
        \<subseteq> set [''date'', ''service_type'', ''service_tier'', ''time_slot'', ''notes''])"

definition not_bookable :: "ScratchpadManager \<Rightarrow> bool" where
  "not_bookable sp = (orch_keys (form sp) \<and> is_bookable (metadata (form sp)) \<noteq> Some True)"

text \<open>
  Two turns of one conversation. The customer has given name, phone and vehicle; the
  collected data of both turns is the same dict (the retroactive sweep returns the merged
  data, which step 7.5 copies into \<open>extracted_data\<close>). The first turn ends in
  VEHICLE_DETAILS, the second in DATE_SELECTION; each runs step 8.4 and then step 10.
\<close>

definition collected_example :: data_dict where
  "collected_example =
     [(''first_name'', Some ''Raj''), (''last_name'', Some ''Kumar''),
      (''phone'', Some ''9876543210''),
      (''vehicle_brand'', Some ''Honda''), (''vehicle_model'', Some ''City''),
      (''vehicle_plate'', Some ''MH12AB1234'')]"

definition two_turns_example :: ScratchpadManager where
  "two_turns_example =
     update_all_from_extraction
       (populate_scratchpad
          (update_all_from_extraction
             (populate_scratchpad (new_scratchpad ''c1'' 0) collected_example 1)
             VEHICLE_DETAILS collected_example 1)
          collected_example 2)
       DATE_SELECTION collected_example 2"



section \<open>Conversation context, bookings and the dump\<close>

text \<open>
  The keys of \<open>ConversationContext.metadata\<close> that the source reads or writes (an
  absent key is \<open>None\<close>), the context, and the world one conversation lives in: its
  context, its scratchpad, the files of the \<open>datadump\<close> folder (file name and content)
  and the service requests built so far.
\<close>

record ContextMetadata =
  service_request_id :: "string option"
  confirmation_attempts :: "nat option"
  booking_completed :: "bool option"
  retroactive_enabled :: "bool option"
  booking_confirmed_at :: "nat option"

record ConversationContext =
  state :: ConversationState
  user_data :: data_dict
  ctx_metadata :: ContextMetadata

record ServiceRequest =
  request_id :: string
  request_conversation_id :: string
  request_customer :: "(string \<times> string) list"
  request_vehicle :: "(string \<times> string) list"
  request_appointment :: "(string \<times> string) list"

record ServiceData =
  sd_service_request_id :: string
  sd_conversation_id :: string
  sd_status :: string
  sd_created_at :: nat
  sd_customer :: "(string \<times> string) list"
  sd_vehicle :: "(string \<times> string) list"
  sd_appointment :: "(string \<times> string) list"
  sd_completeness :: rat
  sd_confirmation_method :: string
  sd_additional :: "(string \<times> string) list"

record World =
  conv :: ConversationContext
  scratchpad :: ScratchpadManager
  datadump :: "(string \<times> ServiceData) list"
  built :: "ServiceRequest list"

datatype io_error = OSError

text \<open>\<open>{k: v.value for k, v in section.items() if v.value is not None}\<close>.\<close>

definition section_values :: "section_dict \<Rightarrow> (string \<times> string) list" where
  "section_values d =
     concat (map (\<lambda>(k, e). case fvalue e of None \<Rightarrow> [] | Some s \<Rightarrow> [(k, s)]) d)"

text \<open>
  \<open>dump_service_request\<close> (service_request_dumper.py): it writes the file
  \<open>datadump/<id>.json\<close>, replacing a file of that name. \<open>io_ok\<close> tells whether the
  folder and the file can be written; otherwise the call raises.
\<close>

definition dump_service_request ::
  "string \<Rightarrow> string \<Rightarrow> ScratchpadManager \<Rightarrow> string \<Rightarrow> (string \<times> string) list \<Rightarrow> bool \<Rightarrow> nat
     \<Rightarrow> (string \<times> ServiceData) list \<Rightarrow> io_error + (string \<times> ServiceData) list" where
  "dump_service_request sid cid sp confirmation_method additional_metadata io_ok now files =
     (let service_data =
            \<lparr>sd_service_request_id = sid, sd_conversation_id = cid,
             sd_status = ''confirmed'', sd_created_at = now,
             sd_customer = section_values (customer (form sp)),
             sd_vehicle = section_values (vehicle (form sp)),
             sd_appointment = section_values (appointment (form sp)),
             sd_completeness = get_completeness sp,
             sd_confirmation_method = confirmation_method,
             sd_additional = additional_metadata\<rparr>
      in if io_ok then Inr (AList.update (sid @ ''.json'') service_data files)
         else Inl OSError)"

text \<open>
  Modelled from the spec: \<open>booking/service_request.py\<close> (\<open>ServiceRequestBuilder.build\<close>)
  is not among the sources. Spec 4.5, step 2: the fields of the three scratchpad sections
  that hold no placeholder are copied into a new ServiceRequest. The id of the new
  request is an input, \<open>new_id\<close>.
\<close>

definition snapshot_values :: "section_dict \<Rightarrow> (string \<times> string) list" where
  "snapshot_values d =
     concat (map (\<lambda>(k, e). if is_filled (fvalue e) then [(k, py_str (fvalue e))] else []) d)"

definition build :: "ScratchpadManager \<Rightarrow> string \<Rightarrow> string \<Rightarrow> ServiceRequest" where
  "build sp cid new_id =
     \<lparr>request_id = new_id, request_conversation_id = cid,
      request_customer = snapshot_values (customer (form sp)),
      request_vehicle = snapshot_values (vehicle (form sp)),
      request_appointment = snapshot_values (appointment (form sp))\<rparr>"

text \<open>
  \<open>StateTransitionRules.VALID_TRANSITIONS\<close> (config.py).

  Modelled from the spec: \<open>conversation_manager.py\<close> (\<open>ConversationManager.update_state\<close>)
  is not among the sources. Spec 4.1: a transition that is not in the table is rejected
  and the state stays as it is.
\<close>

fun VALID_TRANSITIONS :: "ConversationState \<Rightarrow> ConversationState list" where
  "VALID_TRANSITIONS GREETING = [NAME_COLLECTION, SERVICE_SELECTION]"
| "VALID_TRANSITIONS NAME_COLLECTION = [VEHICLE_DETAILS, SERVICE_SELECTION]"
| "VALID_TRANSITIONS SERVICE_SELECTION = [NAME_COLLECTION, VEHICLE_DETAILS]"
| "VALID_TRANSITIONS VEHICLE_DETAILS =
     [DATE_SELECTION, CONFIRMATION, NAME_COLLECTION, SERVICE_SELECTION]"
| "VALID_TRANSITIONS DATE_SELECTION = [CONFIRMATION, VEHICLE_DETAILS]"
| "VALID_TRANSITIONS CONFIRMATION = [COMPLETED, DATE_SELECTION, CANCELLED]"
| "VALID_TRANSITIONS COMPLETED = [GREETING]"
| "VALID_TRANSITIONS CANCELLED = [GREETING]"
| "VALID_TRANSITIONS TIER_SELECTION = [CONFIRMATION]"
| "VALID_TRANSITIONS VEHICLE_TYPE = [VEHICLE_DETAILS]"
| "VALID_TRANSITIONS SLOT_SELECTION = [CONFIRMATION]"
| "VALID_TRANSITIONS ADDRESS_COLLECTION = [CONFIRMATION]"

definition update_state :: "ConversationContext \<Rightarrow> ConversationState \<Rightarrow> ConversationContext" where
  "update_state c new_state =
     (if new_state \<in> set (VALID_TRANSITIONS (state c)) then c\<lparr>state := new_state\<rparr> else c)"

section \<open>orchestrator/message_processor.py: the confirmation flow\<close>

text \<open>\<open>kw in s\<close> on strings, and \<open>any(kw in user_message.lower() for kw in kws)\<close>.\<close>

fun py_in :: "string \<Rightarrow> string \<Rightarrow> bool" where
  "py_in kw [] = (kw = [])"
| "py_in kw (c # s) = (take (length kw) (c # s) = kw \<or> py_in kw s)"

definition any_keyword :: "string list \<Rightarrow> string \<Rightarrow> bool" where
  "any_keyword kws user_message = list_ex (\<lambda>kw. py_in kw (lower user_message)) kws"

definition confirm_keywords :: "string list" where
  "confirm_keywords =
     [''yes'', ''confirm'', ''ok'', ''okay'', ''book'', ''proceed'', ''finalize'', ''haan'',
      ''haa'']"

definition edit_keywords :: "string list" where
  "edit_keywords = [''edit'', ''change'', ''update'', ''correct'', ''modify'']"

definition cancel_keywords :: "string list" where
  "cancel_keywords = [''cancel'', ''no'', ''abort'']"

text \<open>
  \<open>detector\<close> is the answer of the \<open>ConfirmationIntentDetector\<close>: \<open>Some b\<close> for
  \<open>is_confirming\<close>, \<open>None\<close> when the call raised (the keywords decide then).
\<close>

definition user_confirmed :: "string \<Rightarrow> bool option \<Rightarrow> bool" where
  "user_confirmed user_message detector =
     (let user_confirmed_keywords = any_keyword confirm_keywords user_message;
          user_confirmed_dspy =
            (case detector of None \<Rightarrow> user_confirmed_keywords | Some b \<Rightarrow> b)
      in user_confirmed_keywords \<or> user_confirmed_dspy)"

definition user_wants_edit :: "string \<Rightarrow> bool" where
  "user_wants_edit user_message = any_keyword edit_keywords user_message"

definition user_wants_cancel :: "string \<Rightarrow> bool" where
  "user_wants_cancel user_message = any_keyword cancel_keywords user_message"

definition get_attempts :: "World \<Rightarrow> nat" where
  "get_attempts w =
     (case confirmation_attempts (ctx_metadata (conv w)) of None \<Rightarrow> 0 | Some n \<Rightarrow> n)"

definition set_metadata :: "World \<Rightarrow> (ContextMetadata \<Rightarrow> ContextMetadata) \<Rightarrow> World" where
  "set_metadata w g = w\<lparr>conv := (conv w)\<lparr>ctx_metadata := g (ctx_metadata (conv w))\<rparr>\<rparr>"

text \<open>
  Step 8.5 of \<open>process_message\<close> (lines 327 to 406). The result is the
  \<open>service_request_id\<close> of the turn and the world after the step; \<open>new_id\<close> is the id of
  the request that \<open>ServiceRequestBuilder.build\<close> returns when it is called.
\<close>

definition confirmation_flow ::
  "string \<Rightarrow> ConversationState \<Rightarrow> bool \<Rightarrow> string \<Rightarrow> bool option \<Rightarrow> string \<Rightarrow> World
     \<Rightarrow> string option \<times> World" where
  "confirmation_flow cid current_state has_all_required user_message detector new_id w =
     (if current_state = CONFIRMATION \<and> has_all_required then
        let attempts = get_attempts w + 1;
            w1 = set_metadata w (\<lambda>md. md\<lparr>confirmation_attempts := Some attempts\<rparr>);
            auto_confirmed = (CONFIRMATION_AUTO_CONFIRM_ATTEMPTS \<le> attempts)
        in if (auto_confirmed \<and> \<not> user_wants_edit user_message
                 \<and> \<not> user_wants_cancel user_message)
              \<or> user_confirmed user_message detector
           then
             (if CONFIRMATION_MODE = CHAT then
                (if truthy (service_request_id (ctx_metadata (conv w1)))
                      \<and> get_completeness (scratchpad w1) = 0
                 then (service_request_id (ctx_metadata (conv w1)), w1)
                 else
                   (Some new_id,
                    (set_metadata w1
                       (\<lambda>md. md\<lparr>service_request_id := Some new_id,
                                 confirmation_attempts := Some 0,
                                 booking_completed := Some True\<rparr>))
                      \<lparr>built := built w1 @ [build (scratchpad w1) cid new_id]\<rparr>))
              else (None, w1))
           else if user_wants_edit user_message \<or> user_wants_cancel user_message
           then (None, set_metadata w1 (\<lambda>md. md\<lparr>confirmation_attempts := Some 0\<rparr>))
           else (None, w1)
      else (None, w))"

text \<open>
  The end of \<open>process_message\<close> (lines 465 to 491): dump and clear in CHAT mode. An
  exception of the dump is caught and logged; the clear follows in either case.
\<close>

definition dump_and_clear :: "string \<Rightarrow> string option \<Rightarrow> bool \<Rightarrow> nat \<Rightarrow> World \<Rightarrow> World" where
  "dump_and_clear cid sid io_ok now w =
     (if truthy sid \<and> CONFIRMATION_MODE = CHAT then
        (if get_completeness (scratchpad w) = 0 then w
         else
           let files = (case dump_service_request (py_str sid) cid (scratchpad w) ''chat''
                               [(''confirmation_mode'', ''CHAT'')] io_ok now (datadump w) of
                          Inl e \<Rightarrow> datadump w
                        | Inr fs \<Rightarrow> fs)
           in w\<lparr>datadump := files, scratchpad := clear_all (scratchpad w)\<rparr>)
      else w)"

text \<open>
  \<open>DataRequirements.REQUIREMENTS\<close> (retroactive_validator.py), read with
  \<open>.get(state.value, [])\<close>.
\<close>

fun REQUIREMENTS :: "ConversationState \<Rightarrow> string list" where
  "REQUIREMENTS GREETING = []"
| "REQUIREMENTS NAME_COLLECTION = [''first_name'', ''last_name'']"
| "REQUIREMENTS SERVICE_SELECTION = [''first_name'']"
| "REQUIREMENTS VEHICLE_DETAILS =
     [''first_name'', ''vehicle_brand'', ''vehicle_model'', ''vehicle_plate'']"
| "REQUIREMENTS DATE_SELECTION =
     [''first_name'', ''vehicle_brand'', ''vehicle_model'', ''vehicle_plate'',
      ''appointment_date'']"
| "REQUIREMENTS CONFIRMATION =
     [''first_name'', ''vehicle_brand'', ''vehicle_model'', ''vehicle_plate'',
      ''appointment_date'']"
| "REQUIREMENTS COMPLETED =
     [''first_name'', ''vehicle_brand'', ''vehicle_model'', ''vehicle_plate'',
      ''appointment_date'']"
| "REQUIREMENTS other = []"

text \<open>\<open>{**a, **b}\<close>.\<close>

definition dict_merge :: "data_dict \<Rightarrow> data_dict \<Rightarrow> data_dict" where
  "dict_merge a b = foldl (\<lambda>d (k, v). AList.update k v d) a b"

text \<open>
  \<open>process_message\<close> from step 8 to its end, for a context whose \<open>user_data\<close> holds
  the stored data of the turn and for the \<open>extracted_data\<close> that steps 4 to 7.5 have
  produced. \<open>next_state\<close> is the answer of \<open>StateCoordinator.determine_next_state\<close>, which
  is not among the sources. The result is the \<open>service_request_id\<close> and the state of the
  response, and the world after the turn.
\<close>

definition process_message_tail ::
  "string \<Rightarrow> string \<Rightarrow> data_dict option \<Rightarrow> bool option \<Rightarrow> ConversationState \<Rightarrow> string
     \<Rightarrow> bool \<Rightarrow> nat \<Rightarrow> World \<Rightarrow> (string option \<times> ConversationState) \<times> World" where
  "process_message_tail cid user_message extracted_data detector next_state new_id io_ok now w =
     (let current_state = state (conv w);
          extracted = (case extracted_data of None \<Rightarrow> [] | Some d \<Rightarrow> d);
          merged_data = dict_merge (user_data (conv w)) extracted;
          has_all_required =
            list_all (\<lambda>k. k \<in> fst ` set merged_data) (REQUIREMENTS CONFIRMATION);
          w1 = w\<lparr>scratchpad := populate_scratchpad (scratchpad w) merged_data now\<rparr>;
          r = confirmation_flow cid current_state has_all_required user_message detector
                new_id w1;
          sid = fst r;
          w2 = snd r;
          w3 = (if next_state \<noteq> current_state
                then w2\<lparr>conv := update_state (conv w2) next_state\<rparr> else w2);
          w4 = (if next_state = COMPLETED
                     \<and> booking_completed (ctx_metadata (conv w3)) = Some True
                then set_metadata w3 (\<lambda>md. md\<lparr>retroactive_enabled := Some False\<rparr>)
                else w3);
          w5 = (if extracted \<noteq> [] \<and> sid = None
                then w4\<lparr>scratchpad :=
                         update_all_from_extraction (scratchpad w4) next_state extracted now\<rparr>
                else w4)
      in ((sid, next_state), dump_and_clear cid sid io_ok now w5))"

section \<open>booking/booking_flow_integration.py and main.py: the confirmation action\<close>

datatype ConfirmationAction = CONFIRM | EDIT | CANCEL | INVALID | TYPO_DETECTED

text \<open>
  The replies of \<open>process_for_booking\<close>, by kind, and the answers of its collaborators
  that are not among the sources: \<open>BookingIntentDetector\<close>, \<open>ConfirmationGenerator\<close> and
  \<open>ConfirmationHandler\<close> (the action it detects, its typo suggestion, what its edit does
  to the scratchpad, its cancel message).
\<close>

datatype Reply =
  Summary string | Suggestion string | BookingConfirmed string | CancelReply string
  | DataSaved rat

record Handler =
  should_confirm :: bool
  summary :: string
  has_typo_detector :: bool
  detected :: ConfirmationAction
  typo_suggestion :: "string option"
  after_edit :: "ScratchpadManager \<Rightarrow> ScratchpadManager"
  cancel_message :: string

definition action_of_param :: "string \<Rightarrow> ConfirmationAction" where
  "action_of_param action_param =
     (let action_lower = lower action_param
      in if action_lower = ''confirm'' then CONFIRM
         else if action_lower = ''edit'' then EDIT
         else if action_lower = ''cancel'' then CANCEL
         else INVALID)"

definition process_for_booking ::
  "string \<Rightarrow> data_dict \<Rightarrow> string option \<Rightarrow> Handler \<Rightarrow> string \<Rightarrow> nat \<Rightarrow> World
     \<Rightarrow> (Reply \<times> ServiceRequest option) \<times> World" where
  "process_for_booking cid extracted_data action_param h new_id now w =
     (let current_state = state (conv w);
          w1 = w\<lparr>scratchpad := add_extracted_data (scratchpad w) extracted_data now\<rparr>;
          saved = ((DataSaved (get_completeness (scratchpad w1)), None), w1)
      in if should_confirm h \<and> current_state \<noteq> CONFIRMATION
         then ((Summary (summary h), None), w1\<lparr>conv := update_state (conv w1) CONFIRMATION\<rparr>)
         else if current_state = CONFIRMATION then
           (if \<not> truthy action_param \<and> has_typo_detector h \<and> detected h = TYPO_DETECTED
                 \<and> typo_suggestion h \<noteq> None
            then ((Suggestion (py_str (typo_suggestion h)), None), w1)
            else
              let action = (if truthy action_param then action_of_param (py_str action_param)
                            else detected h)
              in if action = CONFIRM then
                   let service_request = build (scratchpad w1) cid new_id;
                       w2 = w1\<lparr>built := built w1 @ [service_request],
                               conv := update_state (conv w1) COMPLETED\<rparr>;
                       w3 = set_metadata w2
                              (\<lambda>md. md\<lparr>service_request_id := Some (request_id service_request),
                                        booking_confirmed_at := Some now\<rparr>)
                   in ((BookingConfirmed (request_id service_request), Some service_request), w3)
                 else if action = EDIT then
                   ((Summary (summary h), None),
                    w1\<lparr>scratchpad := after_edit h (scratchpad w1)\<rparr>)
                 else if action = CANCEL then
                   ((CancelReply (cancel_message h), None),
                    w1\<lparr>conv := update_state (conv w1) CANCELLED\<rparr>)
                 else saved)
         else saved)"

text \<open>
  \<open>handle_confirmation\<close> (main.py, the endpoint \<open>/api/confirmation\<close>).

  Modelled from the spec: \<open>booking_orchestrator_bridge.py\<close> is not among the sources. Its
  \<open>process_booking_turn\<close> is taken to be \<open>BookingFlowManager.process_for_booking\<close> on the
  context and scratchpad that the chat endpoint uses (spec 4.5: the second entry point of
  the finalizer), and its \<open>get_booking_state\<close> to read the state of the context.
\<close>

datatype http_error = HTTP500

definition handle_confirmation ::
  "string \<Rightarrow> string \<Rightarrow> string \<Rightarrow> Handler \<Rightarrow> string \<Rightarrow> bool \<Rightarrow> nat \<Rightarrow> World
     \<Rightarrow> http_error + (Reply \<times> string option \<times> ConversationState) \<times> World" where
  "handle_confirmation cid user_input action h new_id io_ok now w =
     (if cid = [] \<or> user_input = [] \<or> action = [] then Inl HTTP500
      else
        let r = process_for_booking cid [] (Some action) h new_id now w;
            response_msg = fst (fst r);
            service_request = snd (fst r);
            w1 = snd r;
            sid1 = (case service_request of None \<Rightarrow> None | Some sr \<Rightarrow> Some (request_id sr));
            sid2 = (if \<not> truthy sid1 then service_request_id (ctx_metadata (conv w1))
                    else sid1);
            rebuild = (\<not> truthy sid2 \<and> state (conv w1) = COMPLETED);
            sid3 = (if rebuild then Some new_id else sid2);
            w2 = (if rebuild
                  then (set_metadata w1 (\<lambda>md. md\<lparr>service_request_id := Some new_id\<rparr>))
                         \<lparr>built := built w1 @ [build (scratchpad w1) cid new_id]\<rparr>
                  else w1);
            w3 = (if truthy sid3 then
                    (if get_completeness (scratchpad w2) = 0 then w2
                     else
                       let files =
                             (case dump_service_request (py_str sid3) cid (scratchpad w2)
                                     ''button''
                                     [(''confirmation_mode'', ''BUTTON''), (''action'', action)]
                                     io_ok now (datadump w2) of
                                Inl e \<Rightarrow> datadump w2
                              | Inr fs \<Rightarrow> fs)
                       in w2\<lparr>datadump := files, scratchpad := clear_all (scratchpad w2)\<rparr>)
                  else w2)
        in Inr ((response_msg, sid3, state (conv w3)), w3))"

section \<open>Finalization as one step, and example worlds\<close>



text \<open>
  A conversation in CONFIRMATION whose seven booking fields are collected and in the
  scratchpad; the same conversation with the id of an earlier booking in its metadata;
  and collaborators that detect nothing.
\<close>

definition booking_data :: data_dict where
  "booking_data =
     [(''first_name'', Some ''Raj''), (''last_name'', Some ''Kumar''),
      (''phone'', Some ''9876543210''),
      (''vehicle_brand'', Some ''Honda''), (''vehicle_model'', Some ''City''),
      (''vehicle_plate'', Some ''MH12AB1234''), (''appointment_date'', Some ''tomorrow'')]"

definition confirming_world :: World where
  "confirming_world =
     \<lparr>conv = \<lparr>state = CONFIRMATION, user_data = booking_data,
              ctx_metadata = \<lparr>service_request_id = None, confirmation_attempts = None,
                               booking_completed = None, retroactive_enabled = None,
                               booking_confirmed_at = None\<rparr>\<rparr>,
      scratchpad = populate_scratchpad (new_scratchpad ''c1'' 0) booking_data 1,
      datadump = [], built = []\<rparr>"


definition quiet_handler :: Handler where
  "quiet_handler =
     \<lparr>should_confirm = False, summary = ''summary'', has_typo_detector = False,
      detected = INVALID, typo_suggestion = None, after_edit = (\<lambda>sp. sp),
      cancel_message = ''cancelled''\<rparr>"




section \<open>retroactive_validator.py: the retroactive name scan\<close>

text \<open>
  \<open>str.strip()\<close> removes white space at both ends, \<open>str.strip('"\'')\<close> the two quote
  characters.
\<close>

definition py_whitespace :: "char list" where
  "py_whitespace =
     [CHR 0x09, CHR 0x0A, CHR 0x0B, CHR 0x0C, CHR 0x0D, CHR 0x1C, CHR 0x1D, CHR 0x1E, CHR 0x1F,
      CHR 0x20]"

definition strip_chars :: "char list \<Rightarrow> string \<Rightarrow> string" where
  "strip_chars cs s =
     rev (dropWhile (\<lambda>c. c \<in> set cs) (rev (dropWhile (\<lambda>c. c \<in> set cs) s)))"

definition strip :: "string \<Rightarrow> string" where
  "strip s = strip_chars py_whitespace s"

definition strip_quotes :: "string \<Rightarrow> string" where
  "strip_quotes s = strip_chars [CHR 0x22, CHR 0x27] s"

text \<open>
  \<open>RetroactiveScanner._is_vehicle_brand\<close>; \<open>brands\<close> are the values of
  \<open>VehicleBrandEnum\<close>, which is declared in \<open>models.py\<close>, not among the sources.
\<close>

definition is_vehicle_brand :: "string list \<Rightarrow> string \<Rightarrow> bool" where
  "is_vehicle_brand brands txt =
     (if txt = [] \<or> strip txt = [] then False
      else
        let text_lower = strip (lower txt)
        in list_ex (\<lambda>brand. py_in (lower brand) text_lower \<or> py_in text_lower (lower brand))
             brands)"

text \<open>
  A message of the history (\<open>role\<close> and \<open>content\<close>, read with \<open>msg.get\<close>), the name
  the scan returns, and what the scan takes from code that is not among the sources: the
  vehicle brands, \<open>filter_dspy_history_to_user_only\<close>, the \<open>NameExtractor\<close> (its answer for
  a history and a message: \<open>str(result.first_name)\<close> and, when the result has the
  attribute, \<open>str(result.last_name)\<close>; \<open>None\<close> when the call raises), and whether the
  constructor of \<open>ValidatedName\<close> accepts a first and last name (it raises otherwise).
\<close>

record HistoryMessage =
  role :: "string option"
  content :: "string option"

record ValidatedName =
  first_name :: string
  last_name :: string
  full_name :: string
  name_confidence :: rat
  name_extraction_method :: string
  name_extraction_source :: string

record NameCollaborators =
  vehicle_brands :: "string list"
  user_only_filter :: "HistoryMessage list \<Rightarrow> HistoryMessage list"
  name_extractor :: "HistoryMessage list \<Rightarrow> string \<Rightarrow> (string \<times> string option) option"
  name_accepted :: "string \<Rightarrow> string \<Rightarrow> bool"

text \<open>
  The body of the loop of \<open>scan_for_name\<close> for one message: the name it returns, or
  \<open>None\<close> when the loop goes on to the next message (\<open>continue\<close>, an exception, or a
  name that is empty, "none", "n/a" or "unknown").
\<close>

definition name_candidate ::
  "NameCollaborators \<Rightarrow> HistoryMessage list \<Rightarrow> string \<Rightarrow> ValidatedName option" where
  "name_candidate x user_only_history message =
     (case name_extractor x user_only_history message of
        None \<Rightarrow> None
      | Some (name1, name2) \<Rightarrow>
          let fname = strip_quotes (strip name1);
              lname = (case name2 of None \<Rightarrow> [] | Some l \<Rightarrow> strip_quotes (strip l))
          in if is_vehicle_brand (vehicle_brands x) fname
                  \<or> is_vehicle_brand (vehicle_brands x) lname then None
             else if fname \<noteq> [] \<and> lower fname \<in> set GREETING_STOPWORDS then None
             else if fname \<noteq> [] \<and> lower fname \<notin> set [''none'', ''n/a'', ''unknown'']
             then (if name_accepted x fname lname
                   then Some \<lparr>first_name = fname, last_name = lname,
                               full_name = strip (fname @ '' '' @ lname),
                               name_confidence = 8 / 10, name_extraction_method = ''dspy'',
                               name_extraction_source = message\<rparr>
                   else None)
             else None)"

fun scan_messages ::
  "NameCollaborators \<Rightarrow> HistoryMessage list \<Rightarrow> string list \<Rightarrow> ValidatedName option" where
  "scan_messages x user_only_history [] = None"
| "scan_messages x user_only_history (message # rest) =
     (case name_candidate x user_only_history message of
        Some n \<Rightarrow> Some n
      | None \<Rightarrow> scan_messages x user_only_history rest)"

text \<open>\<open>RetroactiveScanner.scan_for_name\<close>; a history without messages is \<open>None\<close>.\<close>

definition scan_for_name ::
  "NameCollaborators \<Rightarrow> HistoryMessage list option \<Rightarrow> ValidatedName option" where
  "scan_for_name x history =
     (case history of
        None \<Rightarrow> None
      | Some messages \<Rightarrow>
          let user_only_history = user_only_filter x messages;
              scan_limit = RETROACTIVE_SCAN_LIMIT;
              recent_messages =
                (if scan_limit < length user_only_history
                 then drop (length user_only_history - scan_limit) user_only_history
                 else user_only_history);
              user_messages =
                map (\<lambda>msg. case content msg of None \<Rightarrow> [] | Some c \<Rightarrow> c)
                  (filter (\<lambda>msg. role msg = Some ''user'') recent_messages)
          in if user_messages = [] then None
             else scan_messages x user_only_history (rev user_messages))"

text \<open>
  Test doubles: an extractor that reads "Raj" and "Ji" from any message, and one that
  reads the greeting "Hello" as a name and "Amit Shah" from the message before it.
\<close>

definition raj_ji_collaborators :: NameCollaborators where
  "raj_ji_collaborators =
     \<lparr>vehicle_brands = [''Honda'', ''Toyota'', ''Mahindra''],
      user_only_filter = filter (\<lambda>msg. role msg = Some ''user''),
      name_extractor = (\<lambda>h m. Some (''Raj'', Some ''Ji'')),
      name_accepted = (\<lambda>f l. True)\<rparr>"

definition greeting_collaborators :: NameCollaborators where
  "greeting_collaborators =
     \<lparr>vehicle_brands = [''Honda'', ''Toyota'', ''Mahindra''],
      user_only_filter = filter (\<lambda>msg. role msg = Some ''user''),
      name_extractor =
        (\<lambda>h m. if m = ''Hello'' then Some (''Hello'', Some [])
                else Some (''Amit'', Some ''Shah'')),
      name_accepted = (\<lambda>f l. True)\<rparr>"

definition greeting_history :: "HistoryMessage list option" where
  "greeting_history =
     Some [\<lparr>role = Some ''user'', content = Some ''I am Amit Shah''\<rparr>,
           \<lparr>role = Some ''assistant'', content = Some ''Welcome''\<rparr>,
           \<lparr>role = Some ''user'', content = Some ''Hello''\<rparr>]"

section \<open>Properties of the scratchpad\<close>

lemma get_attr_set_attr: "sec \<in> set section_names \<Longrightarrow> get_attr (set_attr F sec d) sec = d"
  by (auto simp: get_attr_def set_attr_def section_names_def)

lemma get_attr_update_completeness [simp]:
  "get_attr (form (update_completeness self)) sec = get_attr (form self) sec"
  by (simp add: update_completeness_def Let_def get_attr_def)

lemma get_field_update_completeness [simp]:
  "get_field (update_completeness self) sec f = get_field self sec f"
  by (simp add: get_field_def)

lemma add_field_reject_section:
  "sec \<notin> set section_names \<Longrightarrow> add_field self sec f v src t c m es now = (False, self)"
  by (simp add: add_field_def)

lemma add_field_reject_value:
  "invalid_value v \<Longrightarrow> add_field self sec f v src t c m es now = (False, self)"
  by (auto simp: add_field_def invalid_value_def)

lemma add_field_reject_stored:
  "stored_turn self sec f = Some t0 \<Longrightarrow> t \<le> t0 \<Longrightarrow>
   add_field self sec f v src t c m es now = (False, self)"
  by (auto simp: add_field_def stored_turn_def get_field_def Let_def
      split: if_splits option.splits)

lemma add_field_accept:
  assumes "sec \<in> set section_names" "\<not> invalid_value v"
    and "\<And>t0. stored_turn self sec f = Some t0 \<Longrightarrow> t0 < t"
  shows "fst (add_field self sec f v src t c m es now) \<and>
         get_field (snd (add_field self sec f v src t c m es now)) sec f
           = Some (new_entry self sec f v src t c m es now)"
proof -
  have ns: "\<not> (case map_of (get_attr (form self) sec) f of
                  None \<Rightarrow> False
                | Some e \<Rightarrow> (case turn e of None \<Rightarrow> False | Some t0 \<Rightarrow> t \<le> t0))"
    using assms(1,3) by (auto simp: stored_turn_def get_field_def split: option.splits)
  show ?thesis
    using assms(1,2) ns
    by (simp add: add_field_def Let_def invalid_value_def get_field_def get_attr_set_attr
        update_conv' new_entry_def)
qed

lemma add_field_accepted_iff:
  "fst (add_field self sec f v src t c m es now) \<longleftrightarrow>
     sec \<in> set section_names \<and> \<not> invalid_value v \<and>
     (case stored_turn self sec f of None \<Rightarrow> True | Some t0 \<Rightarrow> t0 < t)"
proof (cases "sec \<in> set section_names \<and> \<not> invalid_value v")
  case False
  then show ?thesis by (auto simp: add_field_reject_section add_field_reject_value)
next
  case ok: True
  show ?thesis
  proof (cases "stored_turn self sec f")
    case None
    then show ?thesis using ok add_field_accept [of sec v self f t] by simp
  next
    case (Some t0)
    show ?thesis
    proof (cases "t0 < t")
      case True
      then show ?thesis using Some ok add_field_accept [of sec v self f t] by simp
    next
      case False
      then have "add_field self sec f v src t c m es now = (False, self)"
        using Some by (simp add: add_field_reject_stored)
      then show ?thesis using Some False by simp
    qed
  qed
qed

lemma add_field_accept_snd:
  assumes "sec \<in> set section_names" "\<not> invalid_value v"
    and "\<And>t0. stored_turn self sec f = Some t0 \<Longrightarrow> t0 < t"
  shows "stored_turn (snd (add_field self sec f v src t c m es now)) sec f = Some t"
    and "stored_value (snd (add_field self sec f v src t c m es now)) sec f = v"
  using add_field_accept [OF assms, where src=src and c=c and m=m and es=es and now=now]
  by (simp_all add: stored_turn_def stored_value_def new_entry_def)

lemma two_writes_later_wins:
  assumes sec: "sec \<in> set section_names"
    and v1: "\<not> invalid_value v1" and v2: "\<not> invalid_value v2" and lt: "t1 < t2"
    and fresh: "\<And>t0. stored_turn self sec f = Some t0 \<Longrightarrow> t0 < t2"
  shows "stored_value
           (snd (add_field (snd (add_field self sec f v1 src1 t1 c1 m1 es1 n1))
                   sec f v2 src2 t2 c2 m2 es2 n2)) sec f = v2
       \<and> stored_value
           (snd (add_field (snd (add_field self sec f v2 src2 t2 c2 m2 es2 n2))
                   sec f v1 src1 t1 c1 m1 es1 n3)) sec f = v2"
proof
  let ?A = "snd (add_field self sec f v1 src1 t1 c1 m1 es1 n1)"
  let ?B = "snd (add_field self sec f v2 src2 t2 c2 m2 es2 n2)"
  have A: "\<And>t0. stored_turn ?A sec f = Some t0 \<Longrightarrow> t0 < t2"
  proof -
    fix t0 assume st: "stored_turn ?A sec f = Some t0"
    show "t0 < t2"
    proof (cases "\<exists>s. stored_turn self sec f = Some s \<and> t1 \<le> s")
      case True
      then obtain s where s: "stored_turn self sec f = Some s" "t1 \<le> s" by blast
      then have "?A = self" by (simp add: add_field_reject_stored)
      with st fresh show ?thesis by simp
    next
      case False
      then have "\<And>s. stored_turn self sec f = Some s \<Longrightarrow> s < t1" by force
      from add_field_accept_snd(1)
        [OF sec v1 this, where src=src1 and c=c1 and m=m1 and es=es1 and now=n1] st lt
      show ?thesis by simp
    qed
  qed
  show "stored_value (snd (add_field ?A sec f v2 src2 t2 c2 m2 es2 n2)) sec f = v2"
    by (rule add_field_accept_snd(2) [OF sec v2 A])
  have B1: "stored_turn ?B sec f = Some t2" and B2: "stored_value ?B sec f = v2"
    using add_field_accept_snd [OF sec v2 fresh] by simp_all
  have "add_field ?B sec f v1 src1 t1 c1 m1 es1 n3 = (False, ?B)"
    using B1 lt by (simp add: add_field_reject_stored)
  then show "stored_value (snd (add_field ?B sec f v1 src1 t1 c1 m1 es1 n3)) sec f = v2"
    using B2 by simp
qed

lemma two_writes_order_independent:
  assumes sec: "sec \<in> set section_names"
    and v1: "\<not> invalid_value v1" and v2: "\<not> invalid_value v2" and lt: "t1 < t2"
  shows "stored_value
           (snd (add_field (snd (add_field self sec f v1 src1 t1 c1 m1 es1 n1))
                   sec f v2 src2 t2 c2 m2 es2 n2)) sec f
       = stored_value
           (snd (add_field (snd (add_field self sec f v2 src2 t2 c2 m2 es2 n2))
                   sec f v1 src1 t1 c1 m1 es1 n3)) sec f"
proof (cases "\<exists>s. stored_turn self sec f = Some s \<and> t2 \<le> s")
  case True
  then obtain s where s: "stored_turn self sec f = Some s" "t2 \<le> s" by blast
  then have "t1 \<le> s" using lt by simp
  then show ?thesis using s by (simp add: add_field_reject_stored)
next
  case False
  then have fr: "\<And>s. stored_turn self sec f = Some s \<Longrightarrow> s < t2" by force
  have "stored_value
           (snd (add_field (snd (add_field self sec f v1 src1 t1 c1 m1 es1 n1))
                   sec f v2 src2 t2 c2 m2 es2 n2)) sec f = v2
       \<and> stored_value
           (snd (add_field (snd (add_field self sec f v2 src2 t2 c2 m2 es2 n2))
                   sec f v1 src1 t1 c1 m1 es1 n3)) sec f = v2"
    by (rule two_writes_later_wins [OF sec v1 v2 lt fr])
  then show ?thesis by (elim conjE) (simp only:)
qed

text \<open>
  Claim C3. For a field whose entry has a recorded turn \<open>t0\<close>, \<open>add_field\<close> accepts a
  write of a valid value exactly when its turn is greater than \<open>t0\<close>; a write at a turn
  \<open>t \<le> t0\<close> returns \<open>False\<close> and leaves the whole scratchpad as it was, whatever the
  value. For two valid writes to one field at turns \<open>t1 < t2\<close>, the value stored after
  both calls does not depend on their order, and it is the value written at \<open>t2\<close>
  whenever the field held nothing written at \<open>t2\<close> or later before the two calls.
\<close>

theorem C3_turn_ordering:
  assumes "sec \<in> set section_names" and "\<not> invalid_value v1" and "\<not> invalid_value v2"
    and "t1 < t2"
  shows
    "(\<forall>t0 t. stored_turn self sec f = Some t0 \<longrightarrow>
        (fst (add_field self sec f v1 src1 t c1 m1 es1 n1) = (t0 < t)) \<and>
        (t \<le> t0 \<longrightarrow> (\<forall>v. add_field self sec f v src1 t c1 m1 es1 n1 = (False, self)))) \<and>
     stored_value
       (snd (add_field (snd (add_field self sec f v1 src1 t1 c1 m1 es1 n1))
               sec f v2 src2 t2 c2 m2 es2 n2)) sec f
     = stored_value
         (snd (add_field (snd (add_field self sec f v2 src2 t2 c2 m2 es2 n2))
                 sec f v1 src1 t1 c1 m1 es1 n3)) sec f \<and>
     ((\<forall>t0. stored_turn self sec f = Some t0 \<longrightarrow> t0 < t2) \<longrightarrow>
        stored_value
          (snd (add_field (snd (add_field self sec f v1 src1 t1 c1 m1 es1 n1))
                  sec f v2 src2 t2 c2 m2 es2 n2)) sec f = v2)"
proof (intro conjI allI impI)
  fix t0 t assume "stored_turn self sec f = Some t0"
  then show "fst (add_field self sec f v1 src1 t c1 m1 es1 n1) = (t0 < t)"
    using assms(1,2) by (simp add: add_field_accepted_iff)
next
  fix t0 t v assume "stored_turn self sec f = Some t0" "t \<le> t0"
  then show "add_field self sec f v src1 t c1 m1 es1 n1 = (False, self)"
    by (rule add_field_reject_stored)
next
  show "stored_value
       (snd (add_field (snd (add_field self sec f v1 src1 t1 c1 m1 es1 n1))
               sec f v2 src2 t2 c2 m2 es2 n2)) sec f
     = stored_value
         (snd (add_field (snd (add_field self sec f v2 src2 t2 c2 m2 es2 n2))
                 sec f v1 src1 t1 c1 m1 es1 n3)) sec f"
    by (rule two_writes_order_independent [OF assms])
next
  assume "\<forall>t0. stored_turn self sec f = Some t0 \<longrightarrow> t0 < t2"
  then have fr: "\<And>s. stored_turn self sec f = Some s \<Longrightarrow> s < t2" by blast
  have "stored_value
           (snd (add_field (snd (add_field self sec f v1 src1 t1 c1 m1 es1 n1))
                   sec f v2 src2 t2 c2 m2 es2 n2)) sec f = v2
       \<and> stored_value
           (snd (add_field (snd (add_field self sec f v2 src2 t2 c2 m2 es2 n2))
                   sec f v1 src1 t1 c1 m1 es1 n1)) sec f = v2"
    by (rule two_writes_later_wins [OF assms fr])
  then show "stored_value
          (snd (add_field (snd (add_field self sec f v1 src1 t1 c1 m1 es1 n1))
                  sec f v2 src2 t2 c2 m2 es2 n2)) sec f = v2"
    by (rule conjunct1)
qed

theorem C3_turn_ordering_witness:
  "stored_turn raj_scratchpad ''customer'' ''first_name'' = Some 1 \<and>
   \<not> fst (add_field raj_scratchpad ''customer'' ''first_name'' (Some ''Amit'') ''user'' 1 1
            ''user'' ''initial_entry'' 2) \<and>
   add_field raj_scratchpad ''customer'' ''first_name'' (Some ''Amit'') ''user'' 1 1
            ''user'' ''initial_entry'' 2 = (False, raj_scratchpad) \<and>
   fst (add_field raj_scratchpad ''customer'' ''first_name'' (Some ''Amit'') ''user'' 2 1
            ''user'' ''initial_entry'' 2) \<and>
   stored_value
     (snd (add_field (snd (add_field raj_scratchpad ''customer'' ''first_name'' (Some ''Amit'')
                             ''user'' 2 1 ''user'' ''initial_entry'' 2))
             ''customer'' ''first_name'' (Some ''Sam'') ''user'' 3 1 ''user'' ''initial_entry'' 3))
     ''customer'' ''first_name'' = Some ''Sam'' \<and>
   stored_value
     (snd (add_field (snd (add_field raj_scratchpad ''customer'' ''first_name'' (Some ''Sam'')
                             ''user'' 3 1 ''user'' ''initial_entry'' 3))
             ''customer'' ''first_name'' (Some ''Amit'') ''user'' 2 1 ''user'' ''initial_entry'' 4))
     ''customer'' ''first_name'' = Some ''Sam''"
proof -
  have sec: "''customer'' \<in> set section_names" by (simp add: section_names_def)
  have v1: "\<not> invalid_value (Some ''Amit'')" by code_simp
  have v2: "\<not> invalid_value (Some ''Sam'')" by code_simp
  have lt: "(2::int) < 3" by simp
  have st: "stored_turn raj_scratchpad ''customer'' ''first_name'' = Some 1" by code_simp
  note th = C3_turn_ordering [OF sec v1 v2 lt, where self=raj_scratchpad and f="''first_name''"
      and ?src1.0="''user''" and ?c1.0=1 and ?m1.0="''user''" and ?es1.0="''initial_entry''" and ?n1.0=2
      and ?src2.0="''user''" and ?c2.0=1 and ?m2.0="''user''" and ?es2.0="''initial_entry''" and ?n2.0=3
      and ?n3.0=4]
  from th have a: "\<forall>t0 t. stored_turn raj_scratchpad ''customer'' ''first_name'' = Some t0 \<longrightarrow>
        (fst (add_field raj_scratchpad ''customer'' ''first_name'' (Some ''Amit'') ''user'' t 1
            ''user'' ''initial_entry'' 2) = (t0 < t)) \<and>
        (t \<le> t0 \<longrightarrow> (\<forall>v. add_field raj_scratchpad ''customer'' ''first_name'' v ''user'' t 1
            ''user'' ''initial_entry'' 2 = (False, raj_scratchpad)))"
    by (rule conjunct1)
  from a st have a1: "\<not> fst (add_field raj_scratchpad ''customer'' ''first_name'' (Some ''Amit'') ''user'' 1 1
            ''user'' ''initial_entry'' 2)"
    and a2: "add_field raj_scratchpad ''customer'' ''first_name'' (Some ''Amit'') ''user'' 1 1
            ''user'' ''initial_entry'' 2 = (False, raj_scratchpad)"
    and a3: "fst (add_field raj_scratchpad ''customer'' ''first_name'' (Some ''Amit'') ''user'' 2 1
            ''user'' ''initial_entry'' 2)"
    by simp_all
  have fr: "\<forall>t0. stored_turn raj_scratchpad ''customer'' ''first_name'' = Some t0 \<longrightarrow> t0 < 3"
    using st by simp
  from th fr have b: "stored_value
     (snd (add_field (snd (add_field raj_scratchpad ''customer'' ''first_name'' (Some ''Amit'')
                             ''user'' 2 1 ''user'' ''initial_entry'' 2))
             ''customer'' ''first_name'' (Some ''Sam'') ''user'' 3 1 ''user'' ''initial_entry'' 3))
     ''customer'' ''first_name'' = Some ''Sam''"
    by blast
  from th b have c: "stored_value
     (snd (add_field (snd (add_field raj_scratchpad ''customer'' ''first_name'' (Some ''Sam'')
                             ''user'' 3 1 ''user'' ''initial_entry'' 3))
             ''customer'' ''first_name'' (Some ''Amit'') ''user'' 2 1 ''user'' ''initial_entry'' 4))
     ''customer'' ''first_name'' = Some ''Sam''"
    by simp
  from st a1 a2 a3 b c show ?thesis by blast
qed

lemma stored_turn_new [simp]: "stored_turn (new_scratchpad cid t0) sec f = None"
  by (simp add: stored_turn_def get_field_def new_scratchpad_def get_attr_def)

lemma haan_valid: "\<not> invalid_value (Some ''Haan'')"
  by code_simp

lemma haan_filled: "is_filled (Some ''Haan'')"
  by code_simp

lemma py_round1_one_field: "py_round1 (1 / 16 * 100) = 62 / 10"
  by code_simp

text \<open>
  Claim C4, as the spec states it, fails: \<open>add_field("customer", "first_name", "Haan",
  turn=1)\<close> on a fresh scratchpad returns \<open>True\<close>, stores the entry and raises the
  completeness to 6.2 percent.
\<close>

theorem C4_haan_accepted_counterexample:
  "add_field (new_scratchpad ''c1'' 0) ''customer'' ''first_name'' (Some ''Haan'')
      ''user'' 1 1 ''user'' ''initial_entry'' 5
   = (True,
      \<lparr>form = \<lparr>customer =
                 [(''first_name'',
                   \<lparr>fvalue = Some ''Haan'', source = Some ''user'', turn = Some 1,
                    confidence = Some 1, extraction_method = Some ''user'',
                    timestamp = Some 5, edit_source = Some ''initial_entry'',
                    previous_value = None, edited_at = Some 5\<rparr>)],
               vehicle = [], appointment = [],
               metadata = \<lparr>md_conversation_id = Some ''c1'', md_created_at = Some 0,
                           data_completeness = Some (62 / 10), is_bookable = Some False,
                           filled_required_fields = Some 1, turns = None\<rparr>\<rparr>,
       conversation_id = ''c1'', created_at = 0\<rparr>)"
  by code_simp

text \<open>
  Claim C4, amended. On a fresh scratchpad \<open>add_field\<close> rejects a write exactly when the
  section is unknown or the value is \<open>None\<close> or, in lower case, one of "unknown",
  "none" and ""; the greeting stopwords are not consulted. "Haan" is not such a value:
  the call of the claim is accepted, stores "Haan" and sets the completeness to 6.2.
\<close>

theorem C4_fresh_add_field:
  "fst (add_field (new_scratchpad cid t0) sec f v src t c m es now)
     = (sec \<in> set section_names \<and> \<not> invalid_value v) \<and>
   \<not> invalid_value (Some ''Haan'') \<and>
   fst (add_field (new_scratchpad cid t0) ''customer'' ''first_name'' (Some ''Haan'')
          src t c m es now) \<and>
   stored_value (snd (add_field (new_scratchpad cid t0) ''customer'' ''first_name''
          (Some ''Haan'') src t c m es now)) ''customer'' ''first_name'' = Some ''Haan'' \<and>
   get_completeness (snd (add_field (new_scratchpad cid t0) ''customer'' ''first_name''
          (Some ''Haan'') src t c m es now)) = 62 / 10"
proof -
  have sec: "''customer'' \<in> set section_names" by (simp add: section_names_def)
  have a: "fst (add_field (new_scratchpad cid t0) sec f v src t c m es now)
     = (sec \<in> set section_names \<and> \<not> invalid_value v)"
    by (simp add: add_field_accepted_iff)
  have b: "fst (add_field (new_scratchpad cid t0) ''customer'' ''first_name'' (Some ''Haan'')
          src t c m es now)"
    using sec haan_valid by (simp add: add_field_accepted_iff)
  have c: "stored_value (snd (add_field (new_scratchpad cid t0) ''customer'' ''first_name''
          (Some ''Haan'') src t c m es now)) ''customer'' ''first_name'' = Some ''Haan''"
    by (rule add_field_accept_snd(2) [OF sec haan_valid]) simp
  have d: "get_completeness (snd (add_field (new_scratchpad cid t0) ''customer'' ''first_name''
          (Some ''Haan'') src t c m es now)) = 62 / 10"
    using haan_valid haan_filled py_round1_one_field
    by (simp add: add_field_def invalid_value_def section_names_def Let_def get_completeness_def
        update_completeness_def completeness_pct_def filled_def filled_in_def get_attr_def
        set_attr_def new_scratchpad_def TOTAL_POSSIBLE_FIELDS_def)
  from a haan_valid b c d show ?thesis by blast
qed

text \<open>
  Claim C6, as the spec states it, fails for an entry without a recorded turn: the write
  is accepted and the new entry's \<open>previous_value\<close> is \<open>None\<close>, not "Raj".
\<close>

theorem C6_untracked_entry_counterexample:
  "get_field untracked_scratchpad ''customer'' ''first_name''
     = Some \<lparr>fvalue = Some ''Raj'', source = None, turn = None, confidence = None,
             extraction_method = None, timestamp = None, edit_source = None,
             previous_value = None, edited_at = None\<rparr> \<and>
   fst (add_field untracked_scratchpad ''customer'' ''first_name'' (Some ''Amit'')
          ''user'' 2 1 ''user'' ''initial_entry'' 7) \<and>
   get_field (snd (add_field untracked_scratchpad ''customer'' ''first_name'' (Some ''Amit'')
          ''user'' 2 1 ''user'' ''initial_entry'' 7)) ''customer'' ''first_name''
     = Some \<lparr>fvalue = Some ''Amit'', source = Some ''user'', turn = Some 2,
             confidence = Some 1, extraction_method = Some ''user'', timestamp = Some 7,
             edit_source = Some ''initial_entry'', previous_value = None,
             edited_at = Some 7\<rparr>"
  by code_simp

text \<open>
  Claim C6, amended. Whenever \<open>add_field\<close> accepts a write over an entry that has a
  recorded turn, the new entry holds the written value, its \<open>previous_value\<close> is the
  value of the entry it replaces and \<open>edited_at\<close> is stamped with the time of the call.
\<close>

theorem C6_previous_value:
  assumes "get_field self sec f = Some e" and "turn e = Some t0"
    and "fst (add_field self sec f v src t c m es now)"
  shows "\<exists>e'. get_field (snd (add_field self sec f v src t c m es now)) sec f = Some e' \<and>
           fvalue e' = v \<and> previous_value e' = fvalue e \<and> edited_at e' = Some now \<and>
           turn e' = Some t"
proof -
  have st: "stored_turn self sec f = Some t0"
    using assms(1,2) by (simp add: stored_turn_def)
  from assms(3) have ok: "sec \<in> set section_names" "\<not> invalid_value v" "t0 < t"
    using st by (simp_all add: add_field_accepted_iff)
  have "\<And>s. stored_turn self sec f = Some s \<Longrightarrow> s < t" using st ok(3) by simp
  from add_field_accept [OF ok(1,2) this, where src=src and c=c and m=m and es=es and now=now]
  show ?thesis using assms(1,2) by (simp add: new_entry_def)
qed

theorem C6_previous_value_witness:
  "get_field raj_scratchpad ''customer'' ''first_name''
     = Some \<lparr>fvalue = Some ''Raj'', source = Some ''user'', turn = Some 1,
             confidence = Some 1, extraction_method = Some ''user'', timestamp = Some 1,
             edit_source = Some ''initial_entry'', previous_value = None,
             edited_at = Some 1\<rparr> \<and>
   fst (add_field raj_scratchpad ''customer'' ''first_name'' (Some ''Amit'')
          ''user'' 2 1 ''user'' ''initial_entry'' 7) \<and>
   (\<exists>e'. get_field (snd (add_field raj_scratchpad ''customer'' ''first_name'' (Some ''Amit'')
             ''user'' 2 1 ''user'' ''initial_entry'' 7)) ''customer'' ''first_name'' = Some e' \<and>
          fvalue e' = Some ''Amit'' \<and> previous_value e' = Some ''Raj'' \<and>
          edited_at e' = Some 7 \<and> turn e' = Some 2)"
proof -
  have g: "get_field raj_scratchpad ''customer'' ''first_name''
     = Some \<lparr>fvalue = Some ''Raj'', source = Some ''user'', turn = Some 1,
             confidence = Some 1, extraction_method = Some ''user'', timestamp = Some 1,
             edit_source = Some ''initial_entry'', previous_value = None,
             edited_at = Some 1\<rparr>"
    by code_simp
  have acc: "fst (add_field raj_scratchpad ''customer'' ''first_name'' (Some ''Amit'')
          ''user'' 2 1 ''user'' ''initial_entry'' 7)"
    by code_simp
  from C6_previous_value [OF g _ acc] g acc show ?thesis by simp
qed








lemma get_attr_metadata [simp]: "get_attr (F\<lparr>metadata := md\<rparr>) s = get_attr F s"
  by (simp add: get_attr_def)

lemma filled_metadata [simp]: "filled (F\<lparr>metadata := md\<rparr>) = filled F"
  by (simp add: filled_def)

lemma completeness_pct_metadata [simp]:
  "completeness_pct (F\<lparr>metadata := md\<rparr>) = completeness_pct F"
  by (simp add: completeness_pct_def)

lemma completeness_ok_update [simp]: "completeness_ok (update_completeness self)"
  by (simp add: completeness_ok_def update_completeness_def Let_def)
















lemma none_outside: "k \<notin> A \<Longrightarrow> fst ` set d \<subseteq> A \<Longrightarrow> map_of d k = None"
  by (auto simp: map_of_eq_None_iff)

lemma required_customer:
  assumes "fst ` set d \<subseteq> set [''first_name'', ''last_name'', ''full_name'', ''phone'', ''address'']"
  shows "required_filled_in d \<le> 3"
proof -
  have "map_of d ''brand'' = None" "map_of d ''model'' = None" "map_of d ''plate'' = None"
    "map_of d ''date'' = None"
    using assms by (auto intro!: none_outside [OF _ assms])
  then show ?thesis by (simp add: required_filled_in_def required_fields_def)
qed

lemma required_vehicle:
  assumes "fst ` set d \<subseteq> set [''brand'', ''model'', ''plate'', ''vehicle_type'']"
  shows "required_filled_in d \<le> 3"
proof -
  have "map_of d ''first_name'' = None" "map_of d ''last_name'' = None"
    "map_of d ''phone'' = None" "map_of d ''date'' = None"
    using assms by (auto intro!: none_outside [OF _ assms])
  then show ?thesis by (simp add: required_filled_in_def required_fields_def)
qed

lemma required_appointment:
  assumes "fst ` set d
     \<subseteq> set [''date'', ''service_type'', ''service_tier'', ''time_slot'', ''notes'']"
  shows "required_filled_in d \<le> 1"
proof -
  have "map_of d ''first_name'' = None" "map_of d ''last_name'' = None"
    "map_of d ''phone'' = None" "map_of d ''brand'' = None" "map_of d ''model'' = None"
    "map_of d ''plate'' = None"
    using assms by (auto intro!: none_outside [OF _ assms])
  then show ?thesis by (simp add: required_filled_in_def required_fields_def)
qed

lemma orch_keys_filled_required: "orch_keys F \<Longrightarrow> filled_required F \<le> 7"
  using required_customer [of "customer F"] required_vehicle [of "vehicle F"]
    required_appointment [of "appointment F"]
  by (simp add: orch_keys_def filled_required_def section_names_def get_attr_def)

lemma orch_keys_metadata [simp]: "orch_keys (F\<lparr>metadata := md\<rparr>) = orch_keys F"
  by (simp add: orch_keys_def)

lemma update_completeness_not_bookable:
  "orch_keys (form sp) \<Longrightarrow> not_bookable (update_completeness sp)"
  using orch_keys_filled_required [of "form sp"]
  by (simp add: not_bookable_def update_completeness_def Let_def
      REQUIRED_FIELDS_FOR_BOOKING_def)

lemma orchestrator_target_cases:
  assumes "orchestrator_target k = Some (sec, f)"
  shows "(sec = ''customer'' \<and>
            f \<in> set [''first_name'', ''last_name'', ''full_name'', ''phone'', ''address'']) \<or>
         (sec = ''vehicle'' \<and> f \<in> set [''brand'', ''model'', ''plate'', ''vehicle_type'']) \<or>
         (sec = ''appointment'' \<and>
            f \<in> set [''date'', ''service_type'', ''service_tier'', ''time_slot'', ''notes''])"
proof -
  consider (c) "k \<in> set [''first_name'', ''last_name'', ''full_name'', ''phone'', ''address'']"
    | (v) "k \<notin> set [''first_name'', ''last_name'', ''full_name'', ''phone'', ''address'']"
          "k \<in> set [''vehicle_brand'', ''vehicle_model'', ''vehicle_plate'', ''vehicle_type'']"
    | (a) "k \<notin> set [''first_name'', ''last_name'', ''full_name'', ''phone'', ''address'']"
          "k \<notin> set [''vehicle_brand'', ''vehicle_model'', ''vehicle_plate'', ''vehicle_type'']"
          "k \<in> set [''appointment_date'', ''service_type'', ''service_tier'', ''time_slot'',
                     ''notes'']"
    | (n) "k \<notin> set [''first_name'', ''last_name'', ''full_name'', ''phone'', ''address'']"
          "k \<notin> set [''vehicle_brand'', ''vehicle_model'', ''vehicle_plate'', ''vehicle_type'']"
          "k \<notin> set [''appointment_date'', ''service_type'', ''service_tier'', ''time_slot'',
                     ''notes'']"
    by blast
  then show ?thesis
  proof cases
    case c
    then have "orchestrator_target k = Some (''customer'', k)"
      by (simp only: orchestrator_target_def if_True)
    with assms c show ?thesis by simp
  next
    case v
    then have t: "orchestrator_target k = Some (''vehicle'',
                 dict_get [(''vehicle_brand'', ''brand''), (''vehicle_model'', ''model''),
                           (''vehicle_plate'', ''plate''), (''vehicle_type'', ''vehicle_type'')]
                   k k)"
      by (simp only: orchestrator_target_def if_True if_False)
    from v(2) have "dict_get [(''vehicle_brand'', ''brand''), (''vehicle_model'', ''model''),
                           (''vehicle_plate'', ''plate''), (''vehicle_type'', ''vehicle_type'')]
                   k k \<in> set [''brand'', ''model'', ''plate'', ''vehicle_type'']"
      by (auto simp: dict_get_def)
    with assms t show ?thesis by simp
  next
    case a
    then have t: "orchestrator_target k = Some (''appointment'',
                 dict_get [(''appointment_date'', ''date''), (''service_type'', ''service_type''),
                           (''service_tier'', ''service_tier''), (''time_slot'', ''time_slot''),
                           (''notes'', ''notes'')]
                   k k)"
      by (simp only: orchestrator_target_def if_True if_False)
    from a(3) have "dict_get [(''appointment_date'', ''date''), (''service_type'', ''service_type''),
                           (''service_tier'', ''service_tier''), (''time_slot'', ''time_slot''),
                           (''notes'', ''notes'')]
                   k k \<in> set [''date'', ''service_type'', ''service_tier'', ''time_slot'', ''notes'']"
      by (auto simp: dict_get_def)
    with assms t show ?thesis by simp
  next
    case n
    then have "orchestrator_target k = None"
      by (simp only: orchestrator_target_def if_True if_False)
    with assms show ?thesis by simp
  qed
qed

lemma orch_keys_set_attr:
  assumes "orch_keys F" "orchestrator_target k = Some (sec, f)"
  shows "orch_keys (set_attr F sec (AList.update f e (get_attr F sec)))"
  using orchestrator_target_cases [OF assms(2)]
proof (elim disjE conjE)
  assume "sec = ''customer''"
    "f \<in> set [''first_name'', ''last_name'', ''full_name'', ''phone'', ''address'']"
  then show ?thesis using assms(1)
    by (simp add: orch_keys_def set_attr_def get_attr_def dom_update)
next
  assume "sec = ''vehicle''" "f \<in> set [''brand'', ''model'', ''plate'', ''vehicle_type'']"
  then show ?thesis using assms(1)
    by (simp add: orch_keys_def set_attr_def get_attr_def dom_update)
next
  assume "sec = ''appointment''"
    "f \<in> set [''date'', ''service_type'', ''service_tier'', ''time_slot'', ''notes'']"
  then show ?thesis using assms(1)
    by (simp add: orch_keys_def set_attr_def get_attr_def dom_update)
qed

lemma add_field_not_bookable:
  assumes "not_bookable sp" "orchestrator_target k = Some (sec, f)"
  shows "not_bookable (snd (add_field sp sec f v src t c m es now))"
proof (cases "fst (add_field sp sec f v src t c m es now)")
  case False
  then have "snd (add_field sp sec f v src t c m es now) = sp"
    by (auto simp: add_field_def Let_def split: if_splits)
  then show ?thesis using assms(1) by simp
next
  case True
  then have "snd (add_field sp sec f v src t c m es now)
      = update_completeness (sp\<lparr>form := set_attr (form sp) sec
          (AList.update f (new_entry sp sec f v src t c m es now) (get_attr (form sp) sec))\<rparr>)"
    by (auto simp: add_field_def Let_def new_entry_def get_field_def split: if_splits)
  moreover have "orch_keys (set_attr (form sp) sec
          (AList.update f (new_entry sp sec f v src t c m es now) (get_attr (form sp) sec)))"
    using assms by (simp add: not_bookable_def orch_keys_set_attr)
  ultimately show ?thesis by (simp add: update_completeness_not_bookable)
qed

lemma populate_field_not_bookable:
  "not_bookable sp \<Longrightarrow> not_bookable (populate_field sp k v now)"
  by (auto simp: populate_field_def add_field_not_bookable split: option.splits)

lemma populate_not_bookable:
  "not_bookable sp \<Longrightarrow> not_bookable (populate_scratchpad sp d now)"
  by (induction sp d now rule: populate_scratchpad.induct)
    (simp_all add: populate_field_not_bookable)

lemma populate_turns_not_bookable:
  "not_bookable sp \<Longrightarrow> not_bookable (populate_turns sp ts)"
  unfolding populate_turns_def
  by (induction ts arbitrary: sp) (auto simp: populate_not_bookable)

lemma new_not_bookable: "not_bookable (new_scratchpad cid t0)"
  by (simp add: not_bookable_def orch_keys_def new_scratchpad_def)

text \<open>
  Claim C9, as stated, fails: after two ordinary turns the scratchpad coordinator has
  written the name and phone fields into the vehicle and the appointment section as
  well, twelve required entries are counted and \<open>is_bookable\<close> is \<open>True\<close>.
\<close>

theorem C9_bookable_counterexample:
  "(let F = form two_turns_example
    in (metadata F, map fst (customer F), map fst (vehicle F), map fst (appointment F)))
   = (\<lparr>md_conversation_id = Some ''c1'', md_created_at = Some 0,
       data_completeness = Some (938 / 10), is_bookable = Some True,
       filled_required_fields = Some 12, turns = None\<rparr>,
      [''first_name'', ''last_name'', ''phone''],
      [''brand'', ''model'', ''plate'', ''first_name'', ''last_name'', ''phone''],
      [''first_name'', ''last_name'', ''phone'', ''vehicle_brand'', ''vehicle_model'',
       ''vehicle_plate''])"
  by code_simp

text \<open>
  Claim C9, amended. Through the orchestrator's field-to-section mapping (step 8.4 of
  \<open>process_message\<close>) alone, over any number of turns from a new scratchpad, at most
  seven required entries are counted and \<open>is_bookable\<close> is never \<open>True\<close>.
\<close>

theorem C9_populate_not_bookable:
  "filled_required (form (populate_turns (new_scratchpad cid t0) ts)) \<le> 7 \<and>
   is_bookable (metadata (form (populate_turns (new_scratchpad cid t0) ts))) \<noteq> Some True"
  using populate_turns_not_bookable [OF new_not_bookable, of cid t0 ts]
  by (simp add: not_bookable_def orch_keys_filled_required)





lemma stored_turn_cong:
  "get_field s sec f = get_field sp sec f \<Longrightarrow> stored_turn s sec f = stored_turn sp sec f"
  by (simp add: stored_turn_def)













section \<open>Properties of the confirmation flow\<close>


lemma set_metadata_proj [simp]:
  "scratchpad (set_metadata w g) = scratchpad w"
  "built (set_metadata w g) = built w"
  "datadump (set_metadata w g) = datadump w"
  "ctx_metadata (conv (set_metadata w g)) = g (ctx_metadata (conv w))"
  "state (conv (set_metadata w g)) = state (conv w)"
  "user_data (conv (set_metadata w g)) = user_data (conv w)"
  by (simp_all add: set_metadata_def)

lemma get_attempts_set [simp]:
  "get_attempts (set_metadata w (\<lambda>md. md\<lparr>confirmation_attempts := Some n\<rparr>)) = n"
  by (simp add: get_attempts_def)











lemma get_completeness_clear [simp]: "get_completeness (clear_all sp) = 0"
  by (simp add: get_completeness_def clear_all_def)






text \<open>
  Claim C2 fails on the code: the exception of the dump is caught and logged, and
  \<open>clear_all\<close> runs all the same. A customer confirms with "yes", the dump cannot write:
  the scratchpad is empty afterwards, nothing is in the dump folder, the id of the request
  is in the metadata and the state is COMPLETED, at the chat endpoint and at
  \<open>/api/confirmation\<close> alike.
\<close>

theorem C2_failed_dump_clears_scratchpad:
  "get_completeness (scratchpad confirming_world) = 438 / 10 \<and>
   (let r = process_message_tail ''c1'' ''yes'' None (Some True) COMPLETED ''SR-0001'' False 5
              confirming_world
    in (fst r, customer (form (scratchpad (snd r))), vehicle (form (scratchpad (snd r))),
        appointment (form (scratchpad (snd r))), get_completeness (scratchpad (snd r)),
        datadump (snd r), state (conv (snd r)),
        service_request_id (ctx_metadata (conv (snd r)))))
     = ((Some ''SR-0001'', COMPLETED), [], [], [], 0, [], COMPLETED, Some ''SR-0001'') \<and>
   map_sum id
     (\<lambda>r. (fst r, customer (form (scratchpad (snd r))), vehicle (form (scratchpad (snd r))),
           appointment (form (scratchpad (snd r))), get_completeness (scratchpad (snd r)),
           datadump (snd r), state (conv (snd r)),
           service_request_id (ctx_metadata (conv (snd r)))))
     (handle_confirmation ''c1'' ''yes'' ''confirm'' quiet_handler ''SR-0001'' False 5
        confirming_world)
     = Inr ((BookingConfirmed ''SR-0001'', Some ''SR-0001'', COMPLETED), [], [], [], 0, [],
            COMPLETED, Some ''SR-0001'')"
  by code_simp

section \<open>Properties of the retroactive name scan\<close>

lemma name_candidate_props:
  assumes "name_candidate x h m = Some n"
  shows "first_name n \<noteq> [] \<and> lower (first_name n) \<notin> set GREETING_STOPWORDS \<and>
         \<not> is_vehicle_brand (vehicle_brands x) (first_name n) \<and>
         \<not> is_vehicle_brand (vehicle_brands x) (last_name n) \<and>
         lower (first_name n) \<notin> set [''none'', ''n/a'', ''unknown'']"
proof (cases "name_extractor x h m")
  case None
  then show ?thesis using assms by (simp add: name_candidate_def)
next
  case (Some r)
  obtain name1 name2 where r: "r = (name1, name2)" by (cases r)
  define fname where "fname = strip_quotes (strip name1)"
  define lname where "lname = (case name2 of None \<Rightarrow> [] | Some l \<Rightarrow> strip_quotes (strip l))"
  have c: "name_candidate x h m =
      (if is_vehicle_brand (vehicle_brands x) fname
                  \<or> is_vehicle_brand (vehicle_brands x) lname then None
             else if fname \<noteq> [] \<and> lower fname \<in> set GREETING_STOPWORDS then None
             else if fname \<noteq> [] \<and> lower fname \<notin> set [''none'', ''n/a'', ''unknown'']
             then (if name_accepted x fname lname
                   then Some \<lparr>first_name = fname, last_name = lname,
                               full_name = strip (fname @ '' '' @ lname),
                               name_confidence = 8 / 10, name_extraction_method = ''dspy'',
                               name_extraction_source = m\<rparr>
                   else None)
             else None)"
    using Some r by (simp add: name_candidate_def fname_def lname_def Let_def)
  from assms show ?thesis
    unfolding c by (auto split: if_splits)
qed

lemma scan_messages_props:
  "scan_messages x h ms = Some n \<Longrightarrow> \<exists>m \<in> set ms. name_candidate x h m = Some n"
  by (induction ms) (auto split: option.splits)

text \<open>
  Claim C8, as stated, fails for the last name: the stopword test reads the first name
  only. For a message from which the extractor reads first name "Raj" and last name
  "Ji", the scan returns that name, and "ji" is in the stopword list.
\<close>

theorem C8_last_name_stopword_counterexample:
  "scan_for_name raj_ji_collaborators
     (Some [\<lparr>role = Some ''user'', content = Some ''I am Raj ji''\<rparr>])
     = Some \<lparr>first_name = ''Raj'', last_name = ''Ji'', full_name = ''Raj Ji'',
             name_confidence = 8 / 10, name_extraction_method = ''dspy'',
             name_extraction_source = ''I am Raj ji''\<rparr> \<and>
   lower ''Ji'' \<in> set GREETING_STOPWORDS"
  by code_simp

text \<open>
  Claim C8, amended. Whatever the extractor answers and whatever the history, a name
  that the retroactive scan returns has a first name that is not empty and, in lower
  case, not in the greeting stopword list, and neither its first nor its last name
  matches a vehicle brand: such candidates are skipped.
\<close>

theorem C8_scan_for_name_filters:
  assumes "scan_for_name x history = Some n"
  shows "first_name n \<noteq> [] \<and> lower (first_name n) \<notin> set GREETING_STOPWORDS \<and>
         \<not> is_vehicle_brand (vehicle_brands x) (first_name n) \<and>
         \<not> is_vehicle_brand (vehicle_brands x) (last_name n)"
proof -
  from assms obtain h ms where "scan_messages x h ms = Some n"
    by (auto simp: scan_for_name_def Let_def split: option.splits if_splits)
  then obtain m where "name_candidate x h m = Some n"
    by (auto dest: scan_messages_props)
  then show ?thesis using name_candidate_props by blast
qed

theorem C8_scan_for_name_filters_witness:
  "scan_for_name greeting_collaborators greeting_history
     = Some \<lparr>first_name = ''Amit'', last_name = ''Shah'', full_name = ''Amit Shah'',
             name_confidence = 8 / 10, name_extraction_method = ''dspy'',
             name_extraction_source = ''I am Amit Shah''\<rparr> \<and>
   lower ''Amit'' \<notin> set GREETING_STOPWORDS \<and>
   \<not> is_vehicle_brand (vehicle_brands greeting_collaborators) ''Amit'' \<and>
   \<not> is_vehicle_brand (vehicle_brands greeting_collaborators) ''Shah''"
proof -
  have s: "scan_for_name greeting_collaborators greeting_history
     = Some \<lparr>first_name = ''Amit'', last_name = ''Shah'', full_name = ''Amit Shah'',
             name_confidence = 8 / 10, name_extraction_method = ''dspy'',
             name_extraction_source = ''I am Amit Shah''\<rparr>"
    by code_simp
  from C8_scan_for_name_filters [OF s] s show ?thesis by simp
qed

end
